theory Spec2Isabelle
  imports Complex_Main
begin

section \<open>Python values and errors\<close>

text \<open>
  The notebooks are Python 3 and NumPy.  The three functions they define that take
  an argument and compute on it are the two successive definitions of \<open>Theta\<close>
  in \<^verbatim>\<open>introduction-to-numpy.ipynb\<close> and \<open>another_function\<close> in the Python
  tutorial.  They are dynamically typed, so the model has a type of the Python values
  they can be handed.

  A Python \<open>float\<close> is an IEEE double: a finite value (kept as the real it denotes),
  an infinity or NaN.  Only comparisons with zero are made on it, and those are exact.
\<close>

datatype pyfloat = Finite real | PosInf | NegInf | NaN

text \<open>The real-valued numbers: Python \<open>bool\<close>, \<open>int\<close> and \<open>float\<close>.\<close>

datatype num = PyBool bool | PyInt int | PyFloat pyfloat

text \<open>
  An element of a numeric ndarray: a real-valued number (boolean, integer and floating
  dtypes; the widths of the integer dtypes are not modelled, an element is a mathematical
  integer) or a complex number, given by its real and imaginary parts.
\<close>

datatype elem = ENum num | EComplex pyfloat pyfloat

fun is_real_elem :: "elem \<Rightarrow> bool" where
  "is_real_elem (ENum x) = True"
| "is_real_elem (EComplex re im) = False"

text \<open>
  A value: a real-valued number, a \<open>complex\<close>, a \<open>str\<close>, or a one-dimensional
  numeric ndarray given by its elements.
\<close>

type_synonym ndarray = "elem list"

datatype pyval =
    Num num
  | PyComplex pyfloat pyfloat
  | PyStr string
  | NdArray ndarray

fun is_ndarray :: "pyval \<Rightarrow> bool" where
  "is_ndarray (NdArray xs) = True"
| "is_ndarray v = False"

text \<open>An element of an ndarray as the Python object it is converted to.\<close>

fun elem_obj :: "elem \<Rightarrow> pyval" where
  "elem_obj (ENum x) = Num x"
| "elem_obj (EComplex re im) = PyComplex re im"

datatype pyerror = TypeError | ValueError

section \<open>Comparison with zero, truth value, multiplication by one\<close>

text \<open>\<open>x >= 0\<close> and \<open>x < 0\<close> on a float: every comparison with NaN is false.\<close>

fun float_ge0 :: "pyfloat \<Rightarrow> bool" where
  "float_ge0 (Finite r) = (0 \<le> r)"
| "float_ge0 PosInf = True"
| "float_ge0 NegInf = False"
| "float_ge0 NaN = False"

fun float_lt0 :: "pyfloat \<Rightarrow> bool" where
  "float_lt0 (Finite r) = (r < 0)"
| "float_lt0 PosInf = False"
| "float_lt0 NegInf = True"
| "float_lt0 NaN = False"

text \<open>On a real-valued number; \<open>False\<close> and \<open>True\<close> compare as 0 and 1.\<close>

fun num_ge0 :: "num \<Rightarrow> bool" where
  "num_ge0 (PyBool b) = True"
| "num_ge0 (PyInt n) = (0 \<le> n)"
| "num_ge0 (PyFloat f) = float_ge0 f"

fun num_lt0 :: "num \<Rightarrow> bool" where
  "num_lt0 (PyBool b) = False"
| "num_lt0 (PyInt n) = (n < 0)"
| "num_lt0 (PyFloat f) = float_lt0 f"

text \<open>
  Inside an ndarray NumPy does order complex numbers, by the real part and then the
  imaginary part; its comparison loops compute, for \<open>x >= y\<close>,
  \<^verbatim>\<open>(xr > yr && !isnan(xi) && !isnan(yi)) || (xr == yr && xi >= yi)\<close>
  and for \<open>x < y\<close> the same with \<open><\<close> in both places.  Here \<open>y\<close> is \<open>0 + 0j\<close>.
\<close>

fun float_gt0 :: "pyfloat \<Rightarrow> bool" where
  "float_gt0 (Finite r) = (0 < r)"
| "float_gt0 PosInf = True"
| "float_gt0 NegInf = False"
| "float_gt0 NaN = False"

fun float_eq0 :: "pyfloat \<Rightarrow> bool" where
  "float_eq0 (Finite r) = (r = 0)"
| "float_eq0 PosInf = False"
| "float_eq0 NegInf = False"
| "float_eq0 NaN = False"

fun float_isnan :: "pyfloat \<Rightarrow> bool" where
  "float_isnan NaN = True"
| "float_isnan f = False"

fun elem_ge0 :: "elem \<Rightarrow> bool" where
  "elem_ge0 (ENum x) = num_ge0 x"
| "elem_ge0 (EComplex re im) =
     ((float_gt0 re \<and> \<not> float_isnan im) \<or> (float_eq0 re \<and> float_ge0 im))"

fun elem_lt0 :: "elem \<Rightarrow> bool" where
  "elem_lt0 (ENum x) = num_lt0 x"
| "elem_lt0 (EComplex re im) =
     ((float_lt0 re \<and> \<not> float_isnan im) \<or> (float_eq0 re \<and> float_lt0 im))"

text \<open>
  The result of comparing a value with the integer 0: a \<open>bool\<close>, or for an ndarray
  the boolean ndarray of the elementwise comparisons.
\<close>

datatype cmp = CBool bool | CArray "bool list"

text \<open>
  \<open>x >= 0\<close>.  Python 3 defines no order between a \<open>complex\<close> or a \<open>str\<close> and an
  \<open>int\<close>: the comparison raises \<open>TypeError\<close>.  On an ndarray the comparison is
  NumPy's, element by element, complex elements included.
\<close>

fun py_ge0 :: "pyval \<Rightarrow> pyerror + cmp" where
  "py_ge0 (Num x) = Inr (CBool (num_ge0 x))"
| "py_ge0 (PyComplex re im) = Inl TypeError"
| "py_ge0 (PyStr s) = Inl TypeError"
| "py_ge0 (NdArray xs) = Inr (CArray (map elem_ge0 xs))"

text \<open>\<open>x < 0\<close>, in which the claims about \<open>Theta\<close> are phrased.\<close>

fun py_lt0 :: "pyval \<Rightarrow> pyerror + cmp" where
  "py_lt0 (Num x) = Inr (CBool (num_lt0 x))"
| "py_lt0 (PyComplex re im) = Inl TypeError"
| "py_lt0 (PyStr s) = Inl TypeError"
| "py_lt0 (NdArray xs) = Inr (CArray (map elem_lt0 xs))"

text \<open>
  The truth value an \<open>if\<close> takes of the comparison's result.  NumPy refuses it for an
  ndarray of more than one element (\<open>ValueError\<close>: the truth value of an array with
  more than one element is ambiguous); an ndarray of one element has the truth value of
  that element, and in the NumPy release the notebook is written for (it uses
  \<open>np.bool\<close> and \<open>np.sctypes\<close>) an empty one is false.
\<close>

fun truth :: "cmp \<Rightarrow> pyerror + bool" where
  "truth (CBool b) = Inr b"
| "truth (CArray []) = Inr False"
| "truth (CArray [b]) = Inr b"
| "truth (CArray (b # c # bs)) = Inl ValueError"

text \<open>
  \<open>1 * c\<close> for the result \<open>c\<close> of a comparison: a \<open>bool\<close> is an \<open>int\<close>, so the
  product is the integer 1 or 0; a boolean ndarray times the integer 1 is the integer
  ndarray of the elementwise products.
\<close>

definition int_of_bool :: "bool \<Rightarrow> int" where
  "int_of_bool b = (if b then 1 else 0)"

fun one_times :: "cmp \<Rightarrow> pyval" where
  "one_times (CBool b) = Num (PyInt (1 * int_of_bool b))"
| "one_times (CArray bs) = NdArray (map (\<lambda>b. ENum (PyInt (1 * int_of_bool b))) bs)"

section \<open>The scalar Heaviside function\<close>

text \<open>
  \<^verbatim>\<open>
  def Theta(x):
      """
      scalar implementation of the Heaviside step function.
      """
      if x >= 0:
          return 1
      else:
          return 0
  \<close>
  The comparison or the truth test may raise; nothing in the function catches it.
\<close>

definition Theta :: "pyval \<Rightarrow> pyerror + int" where
  "Theta x =
     (case py_ge0 x of
        Inl e \<Rightarrow> Inl e
      | Inr c \<Rightarrow>
          (case truth c of
             Inl e \<Rightarrow> Inl e
           | Inr b \<Rightarrow> if b then Inr 1 else Inr 0))"

section \<open>Vectorising the scalar function\<close>

text \<open>
  \<^verbatim>\<open>
  v1 = np.array([-3,-2,-1,0,1,2,3])
  Theta_vec = np.vectorize(Theta)
  Theta_vec(v1)
  \<close>
\<close>

definition v1 :: ndarray where
  "v1 = [ENum (PyInt (- 3)), ENum (PyInt (- 2)), ENum (PyInt (- 1)), ENum (PyInt 0),
          ENum (PyInt 1), ENum (PyInt 2), ENum (PyInt 3)]"

text \<open>
  The Python function is called on the elements in order, each handed over as a Python
  object (NumPy first converts the ndarray to one of dtype \<open>object\<close>, so a complex
  element arrives as a Python \<open>complex\<close>); the first call that raises ends the
  evaluation with its error.
\<close>

fun call_each :: "(pyval \<Rightarrow> pyerror + int) \<Rightarrow> ndarray \<Rightarrow> pyerror + int list" where
  "call_each f [] = Inr []"
| "call_each f (x # xs) =
     (case f (elem_obj x) of
        Inl e \<Rightarrow> Inl e
      | Inr y \<Rightarrow>
          (case call_each f xs of
             Inl e \<Rightarrow> Inl e
           | Inr ys \<Rightarrow> Inr (y # ys)))"

text \<open>
  \<open>np.vectorize(f)\<close>, made without \<open>otypes\<close> as the notebook does, applied to a
  one-dimensional ndarray, for an \<open>f\<close> that returns Python integers.  NumPy finds the
  dtype of the result by calling \<open>f\<close> on the first element, so it refuses an ndarray of
  size 0 (\<open>ValueError\<close>: cannot call \<open>vectorize\<close> on size 0 inputs unless \<open>otypes\<close>
  is set); then it calls \<open>f\<close> on every element and returns the integer ndarray of
  the results.  The first call only fixes the dtype, which is the integer one for every
  \<open>f\<close> of this type; an error of \<open>f\<close> on the first element is the result either
  way.  Arguments that are not ndarrays are left out of the model.
\<close>

fun np_vectorize :: "(pyval \<Rightarrow> pyerror + int) \<Rightarrow> ndarray \<Rightarrow> pyerror + pyval" where
  "np_vectorize f [] = Inl ValueError"
| "np_vectorize f (x # xs) =
     (case f (elem_obj x) of
        Inl e \<Rightarrow> Inl e
      | Inr y0 \<Rightarrow>
          (case call_each f (x # xs) of
             Inl e \<Rightarrow> Inl e
           | Inr ys \<Rightarrow> Inr (NdArray (map (\<lambda>y. ENum (PyInt y)) ys))))"

definition Theta_vec :: "ndarray \<Rightarrow> pyerror + pyval" where
  "Theta_vec = np_vectorize Theta"

section \<open>The vector-aware Heaviside function\<close>

text \<open>
  The notebook then defines \<open>Theta\<close> again:
  \<^verbatim>\<open>
  def Theta(x):
      """
      Vector-aware implementation of the Heaviside step function.
      """
      return 1 * (x >= 0)
  \<close>
\<close>

definition Theta_vector_aware :: "pyval \<Rightarrow> pyerror + pyval" where
  "Theta_vector_aware x =
     (case py_ge0 x of
        Inl e \<Rightarrow> Inl e
      | Inr c \<Rightarrow> Inr (one_times c))"

text \<open>The integer a call of the scalar function returns, as a value.\<close>

definition returned_int :: "pyerror + int \<Rightarrow> pyerror + pyval" where
  "returned_int r = (case r of Inl e \<Rightarrow> Inl e | Inr k \<Rightarrow> Inr (Num (PyInt k)))"

section \<open>The function of the Python tutorial\<close>

text \<open>
  \<^verbatim>\<open>
  def another_function(number=0, name="No name"):
      return f"{number}, {name}"
  \<close>
  A replacement field \<open>{v}\<close> of an f-string is \<open>format(v, "")\<close>: a \<open>str\<close>
  itself, an \<open>int\<close> in decimal, a \<open>bool\<close> by its name.
\<close>

definition digit_char :: "nat \<Rightarrow> char" where
  "digit_char d = ''0123456789'' ! d"

fun str_nat :: "nat \<Rightarrow> string" where
  "str_nat n =
     (if n < 10 then [digit_char n] else str_nat (n div 10) @ [digit_char (n mod 10)])"

declare str_nat.simps [simp del]

definition str_int :: "int \<Rightarrow> string" where
  "str_int n = (if n < 0 then CHR ''-'' # str_nat (nat (- n)) else str_nat (nat n))"

text \<open>
  The text of a \<open>float\<close>, a \<open>complex\<close> or an ndarray is made by the interpreter's and
  NumPy's printing routines, which are not part of the repository: it is the
  parameter \<open>other\<close>.
\<close>

fun py_format :: "(pyval \<Rightarrow> string) \<Rightarrow> pyval \<Rightarrow> string" where
  "py_format other (PyStr s) = s"
| "py_format other (Num (PyInt n)) = str_int n"
| "py_format other (Num (PyBool b)) = (if b then ''True'' else ''False'')"
| "py_format other v = other v"

definition another_function :: "(pyval \<Rightarrow> string) \<Rightarrow> pyval \<Rightarrow> pyval \<Rightarrow> string" where
  "another_function other number name =
     py_format other number @ '', '' @ py_format other name"

text \<open>
  A call binds the positional arguments to \<open>number\<close> and \<open>name\<close> in this order, then
  each keyword argument to the parameter of its name, and gives a parameter left unbound
  its default.  More than two positional arguments, a keyword that names no parameter
  and a second value for a parameter each raise \<open>TypeError\<close>.
\<close>

type_synonym params = "pyval option \<times> pyval option"

fun bind_positional :: "pyval list \<Rightarrow> pyerror + params" where
  "bind_positional [] = Inr (None, None)"
| "bind_positional [a] = Inr (Some a, None)"
| "bind_positional [a, b] = Inr (Some a, Some b)"
| "bind_positional (a # b # c # rest) = Inl TypeError"

fun bind_keywords :: "params \<Rightarrow> (string \<times> pyval) list \<Rightarrow> pyerror + params" where
  "bind_keywords p [] = Inr p"
| "bind_keywords (number, name) ((k, v) # kws) =
     (if k = ''number'' then
        (case number of
           Some u \<Rightarrow> Inl TypeError
         | None \<Rightarrow> bind_keywords (Some v, name) kws)
      else if k = ''name'' then
        (case name of
           Some u \<Rightarrow> Inl TypeError
         | None \<Rightarrow> bind_keywords (number, Some v) kws)
      else Inl TypeError)"

definition call_another_function ::
  "(pyval \<Rightarrow> string) \<Rightarrow> pyval list \<Rightarrow> (string \<times> pyval) list \<Rightarrow> pyerror + string" where
  "call_another_function other args kwargs =
     (case bind_positional args of
        Inl e \<Rightarrow> Inl e
      | Inr p \<Rightarrow>
          (case bind_keywords p kwargs of
             Inl e \<Rightarrow> Inl e
           | Inr (number, name) \<Rightarrow>
               Inr (another_function other
                      (case number of None \<Rightarrow> Num (PyInt 0) | Some v \<Rightarrow> v)
                      (case name of None \<Rightarrow> PyStr ''No name'' | Some v \<Rightarrow> v))))"

section \<open>Theorems\<close>

subsection \<open>The scalar \<open>Theta\<close> is the Heaviside step function\<close>

text \<open>
  C8.  On every input for which \<open>x >= 0\<close> is true the scalar \<open>Theta\<close> returns 1, and
  on every input for which \<open>x < 0\<close> is true it returns 0.
\<close>

theorem Theta_scalar_heaviside:
  "(py_ge0 x = Inr (CBool True) \<longrightarrow> Theta x = Inr 1) \<and>
   (py_lt0 x = Inr (CBool True) \<longrightarrow> Theta x = Inr 0)"
proof (cases x)
  case (Num n)
  have "num_lt0 n \<Longrightarrow> \<not> num_ge0 n"
  proof (cases n)
    case (PyFloat f)
    assume "num_lt0 n"
    with PyFloat show ?thesis by (cases f) simp_all
  qed simp_all
  with Num show ?thesis by (auto simp: Theta_def)
qed (simp_all add: Theta_def)

theorem Theta_scalar_heaviside_witness:
  "py_ge0 (Num (PyFloat (Finite 2.6))) = Inr (CBool True) \<and>
   Theta (Num (PyFloat (Finite 2.6))) = Inr 1 \<and>
   py_lt0 (Num (PyInt (- 3))) = Inr (CBool True) \<and>
   Theta (Num (PyInt (- 3))) = Inr 0"
  using Theta_scalar_heaviside [of "Num (PyFloat (Finite 2.6))"]
        Theta_scalar_heaviside [of "Num (PyInt (- 3))"]
  by simp

subsection \<open>What the notebook's own calls of \<open>Theta\<close> give\<close>

text \<open>
  \<open>Theta(v1)\<close> with the scalar definition: the comparison gives a boolean ndarray of
  seven elements, whose truth value the \<open>if\<close> asks for, and the \<open>ValueError\<close> leaves
  the function.
\<close>

lemma Theta_v1_raises: "Theta (NdArray v1) = Inl ValueError"
  by (simp add: Theta_def v1_def)

lemma Theta_complex_raises: "Theta (PyComplex re im) = Inl TypeError"
  by (simp add: Theta_def)

text \<open>NaN is neither at least zero nor below it; the \<open>else\<close> branch returns 0.\<close>

lemma Theta_NaN: "Theta (Num (PyFloat NaN)) = Inr 0"
  by (simp add: Theta_def)

lemma Theta_num: "Theta (Num y) = Inr (int_of_bool (num_ge0 y))"
  by (simp add: Theta_def int_of_bool_def)

lemma Theta_int: "Theta (Num (PyInt n)) = Inr (if 0 \<le> n then 1 else 0)"
  by (simp add: Theta_def)

lemma Theta_finite_float: "Theta (Num (PyFloat (Finite r))) = Inr (if 0 \<le> r then 1 else 0)"
  by (simp add: Theta_def)

text \<open>
  On real-valued elements every call of the scalar function returns; on a complex element
  it raises \<open>TypeError\<close>, the only error it has on an element.
\<close>

lemma call_each_Theta:
  "list_all is_real_elem ys \<Longrightarrow>
     call_each Theta ys = Inr (map (\<lambda>y. int_of_bool (elem_ge0 y)) ys)"
proof (induction ys)
  case Nil
  show ?case by simp
next
  case (Cons y ys)
  then obtain n where "y = ENum n" by (cases y) simp_all
  with Cons show ?case by (simp add: Theta_num)
qed

lemma call_each_Theta_complex:
  "\<not> list_all is_real_elem ys \<Longrightarrow> call_each Theta ys = Inl TypeError"
proof (induction ys)
  case Nil
  then show ?case by simp
next
  case (Cons y ys)
  show ?case
  proof (cases y)
    case (ENum n)
    with Cons show ?thesis by (simp add: Theta_num)
  next
    case (EComplex re im)
    then show ?thesis by (simp add: Theta_complex_raises)
  qed
qed

lemma Theta_vec_real:
  assumes "xs \<noteq> []" and "list_all is_real_elem xs"
  shows "Theta_vec xs = Inr (NdArray (map (\<lambda>y. ENum (PyInt (int_of_bool (elem_ge0 y)))) xs))"
proof -
  from assms obtain n ys where xs: "xs = ENum n # ys"
    by (cases xs; cases "hd xs") auto
  have "call_each Theta (ENum n # ys) =
          Inr (map (\<lambda>y. int_of_bool (elem_ge0 y)) (ENum n # ys))"
    using assms(2) unfolding xs by (rule call_each_Theta)
  then show ?thesis
    unfolding xs Theta_vec_def by (simp add: Theta_num comp_def)
qed

lemma Theta_vec_complex:
  assumes "\<not> list_all is_real_elem xs"
  shows "Theta_vec xs = Inl TypeError"
proof (cases xs)
  case Nil
  with assms show ?thesis by simp
next
  case (Cons y ys)
  have each: "call_each Theta (y # ys) = Inl TypeError"
    using assms unfolding Cons by (rule call_each_Theta_complex)
  show ?thesis
  proof (cases y)
    case (ENum n)
    with Cons each show ?thesis
      unfolding Theta_vec_def by (simp add: Theta_num)
  next
    case (EComplex re im)
    with Cons show ?thesis
      unfolding Theta_vec_def by (simp add: Theta_complex_raises)
  qed
qed

lemma Theta_vector_aware_ndarray:
  "Theta_vector_aware (NdArray xs) =
     Inr (NdArray (map (\<lambda>y. ENum (PyInt (int_of_bool (elem_ge0 y)))) xs))"
  by (simp add: Theta_vector_aware_def comp_def)

text \<open>\<open>Theta_vec(v1)\<close> and, after the second definition, \<open>Theta(v1)\<close>.\<close>

lemma Theta_vec_v1:
  "Theta_vec v1 =
     Inr (NdArray [ENum (PyInt 0), ENum (PyInt 0), ENum (PyInt 0), ENum (PyInt 1),
                   ENum (PyInt 1), ENum (PyInt 1), ENum (PyInt 1)])"
  by (simp add: Theta_vec_def Theta_def v1_def)

lemma Theta_vector_aware_v1:
  "Theta_vector_aware (NdArray v1) =
     Inr (NdArray [ENum (PyInt 0), ENum (PyInt 0), ENum (PyInt 0), ENum (PyInt 1),
                   ENum (PyInt 1), ENum (PyInt 1), ENum (PyInt 1)])"
  by (simp add: Theta_vector_aware_def v1_def int_of_bool_def)

text \<open>\<open>Theta(-1.2), Theta(2.6)\<close>: "it even works with scalar input".\<close>

lemma Theta_vector_aware_scalars:
  "Theta_vector_aware (Num (PyFloat (Finite (- 1.2)))) = Inr (Num (PyInt 0))"
  "Theta_vector_aware (Num (PyFloat (Finite 2.6))) = Inr (Num (PyInt 1))"
  by (simp_all add: Theta_vector_aware_def int_of_bool_def)

text \<open>An element on which the scalar function raises makes the vectorised call raise.\<close>

lemma call_each_error:
  "x \<in> set xs \<Longrightarrow> f (elem_obj x) = Inl e \<Longrightarrow> \<exists>e'. call_each f xs = Inl e'"
  by (induction xs) (auto split: sum.splits)

subsection \<open>The two definitions of \<open>Theta\<close> compared\<close>

text \<open>
  C9, as the specification states it, fails at the empty ndarray: the vector-aware
  \<open>Theta\<close> returns the empty ndarray, \<open>np.vectorize\<close> of the scalar \<open>Theta\<close>
  raises \<open>ValueError\<close>.
\<close>

theorem Theta_vec_empty_counterexample:
  "Theta_vector_aware (NdArray []) = Inr (NdArray []) \<and> Theta_vec [] = Inl ValueError"
  by (simp add: Theta_vector_aware_def Theta_vec_def)

text \<open>
  It fails on complex vectors as well.  On \<open>np.array([1+2j])\<close> the vector-aware
  \<open>Theta\<close> compares inside NumPy and returns \<open>array([1])\<close>, while the vectorised
  scalar \<open>Theta\<close> is handed the Python \<open>complex\<close> and raises \<open>TypeError\<close>.
\<close>

lemma Theta_vec_complex_differs:
  "Theta_vector_aware (NdArray [EComplex (Finite 1) (Finite 2)]) =
     Inr (NdArray [ENum (PyInt 1)]) \<and>
   Theta_vec [EComplex (Finite 1) (Finite 2)] = Inl TypeError"
  by (simp add: Theta_vector_aware_def Theta_vec_def Theta_def int_of_bool_def)

text \<open>
  C9, amended.  The vector-aware \<open>Theta\<close> returns on every value that is not an
  ndarray what the scalar \<open>Theta\<close> returns there (the same integer, or the same error),
  and on every ndarray that is not empty and whose elements are all real-valued (boolean,
  integer or floating) what \<open>np.vectorize\<close> of the scalar \<open>Theta\<close> returns.
\<close>

theorem Theta_vector_aware_refines:
  "(\<not> is_ndarray x \<longrightarrow> Theta_vector_aware x = returned_int (Theta x)) \<and>
   (xs \<noteq> [] \<and> list_all is_real_elem xs \<longrightarrow>
      Theta_vector_aware (NdArray xs) = Theta_vec xs)"
proof
  show "\<not> is_ndarray x \<longrightarrow> Theta_vector_aware x = returned_int (Theta x)"
    by (cases x)
      (simp_all add: Theta_vector_aware_def Theta_def returned_int_def int_of_bool_def)
  show "xs \<noteq> [] \<and> list_all is_real_elem xs \<longrightarrow>
          Theta_vector_aware (NdArray xs) = Theta_vec xs"
  proof
    assume "xs \<noteq> [] \<and> list_all is_real_elem xs"
    then have "Theta_vec xs =
        Inr (NdArray (map (\<lambda>y. ENum (PyInt (int_of_bool (elem_ge0 y)))) xs))"
      by (simp add: Theta_vec_real)
    then show "Theta_vector_aware (NdArray xs) = Theta_vec xs"
      by (simp add: Theta_vector_aware_ndarray)
  qed
qed

theorem Theta_vector_aware_refines_witness:
  "\<not> is_ndarray (Num (PyFloat (Finite (- 1.2)))) \<and>
   Theta_vector_aware (Num (PyFloat (Finite (- 1.2)))) = Inr (Num (PyInt 0)) \<and>
   returned_int (Theta (Num (PyFloat (Finite (- 1.2))))) = Inr (Num (PyInt 0)) \<and>
   v1 \<noteq> [] \<and> list_all is_real_elem v1 \<and>
   Theta_vector_aware (NdArray v1) = Theta_vec v1"
  using Theta_vector_aware_refines [of "Num (PyFloat (Finite (- 1.2)))" v1]
  by (simp add: v1_def Theta_def returned_int_def)

text \<open>
  The two hypotheses on the ndarray are the exact ones: the results are equal on no
  other ndarray.
\<close>

lemma Theta_vec_agrees_iff:
  "Theta_vector_aware (NdArray xs) = Theta_vec xs \<longleftrightarrow>
     xs \<noteq> [] \<and> list_all is_real_elem xs"
proof (cases "list_all is_real_elem xs")
  case False
  then show ?thesis
    by (simp add: Theta_vec_complex Theta_vector_aware_ndarray)
next
  case True
  show ?thesis
  proof (cases "xs = []")
    case True
    then show ?thesis by (simp add: Theta_vector_aware_def Theta_vec_def)
  next
    case False
    with True show ?thesis
      by (simp add: Theta_vec_real Theta_vector_aware_ndarray)
  qed
qed

subsection \<open>\<open>another_function\<close>\<close>

lemma str_int_0: "str_int 0 = ''0''"
  by (simp add: str_int_def str_nat.simps digit_char_def)

text \<open>
  C10.  For a number \<open>n\<close> (indeed any value) and a string \<open>s\<close>,
  \<open>another_function(n, s)\<close> is the text of \<open>n\<close>, a comma and a space, and \<open>s\<close>; without arguments the result is that of
  \<open>number = 0\<close> and \<open>name = "No name"\<close>, and with \<open>name\<close> left out its default is
  taken; both arguments by keyword, in either order, give what the positional call gives.
\<close>

theorem another_function_result:
  "call_another_function other [n, PyStr s] [] =
     Inr (py_format other n @ '', '' @ s) \<and>
   call_another_function other [] [] =
     call_another_function other [Num (PyInt 0), PyStr ''No name''] [] \<and>
   call_another_function other [] [] = Inr ''0, No name'' \<and>
   call_another_function other [n] [] =
     call_another_function other [n, PyStr ''No name''] [] \<and>
   call_another_function other [] [(''number'', n), (''name'', PyStr s)] =
     call_another_function other [n, PyStr s] [] \<and>
   call_another_function other [] [(''name'', PyStr s), (''number'', n)] =
     call_another_function other [n, PyStr s] []"
  by (simp add: call_another_function_def another_function_def str_int_0)

text \<open>The two calls the tutorial makes print \<open>12, No name\<close> and \<open>16, Yatri\<close>.\<close>

lemma another_function_tutorial_calls:
  "call_another_function other [Num (PyInt 12)] [] = Inr ''12, No name''"
  "call_another_function other [] [(''name'', PyStr ''Yatri''), (''number'', Num (PyInt 16))] =
     Inr ''16, Yatri''"
  by (simp_all add: call_another_function_def another_function_def
        str_int_def str_nat.simps digit_char_def)

text \<open>A call that does not fit the signature raises \<open>TypeError\<close>.\<close>

lemma another_function_bad_calls:
  "call_another_function other [a, b, c] [] = Inl TypeError"
  "call_another_function other [a] [(''number'', b)] = Inl TypeError"
  "call_another_function other [] [(''age'', a)] = Inl TypeError"
  by (simp_all add: call_another_function_def)

end
